theory Spec2Isabelle
  imports Complex_Main
begin

section \<open>The asset dashboard: balance simulation and required-quantity solver\<close>

text \<open>
  The development embeds the computational core of \<^verbatim>\<open>app.py\<close>: the nested
  functions \<^verbatim>\<open>calculate_balance_with_skip_growth\<close> and
  \<^verbatim>\<open>find_required_assets_with_skip_growth\<close> of \<^verbatim>\<open>update_dashboard\<close>,
  and the loop of \<^verbatim>\<open>update_dashboard\<close> that builds the rows of the table.

  Numbers. The two simulation loops are written over an arbitrary number type
  \<open>'a\<close> that has \<open>0\<close>, \<open>1\<close>, \<open>+\<close>, \<open>-\<close>, \<open>*\<close> and a power; no law of arithmetic
  is assumed of it, so what is proved at that type holds of any arithmetic, the
  rounding arithmetic of Python's floats included. Algebraic facts are proved at
  type \<open>real\<close>: there the value of a float expression is idealised as the real
  number it approximates. The one place where the solver branches on the sign of a
  float product, the test of the bracket loop, is modelled with the underflow of
  doubles (\<open>float_product_positive\<close> below). Overflow is outside the model: a float
  power too large for a double raises \<^verbatim>\<open>OverflowError\<close> in Python, and sums and
  products too large become \<^verbatim>\<open>inf\<close> or \<^verbatim>\<open>nan\<close>; a statement about which way
  the solver goes carries bounds that keep the doubles in range where it needs them.
  The number of years and the starting year are Python integers, type \<open>int\<close>; a
  \<^verbatim>\<open>range(1, n + 1)\<close> is the list \<open>[1..n]\<close>, empty when \<open>n < 1\<close>.
\<close>

subsection \<open>Errors\<close>

text \<open>
  The only exception the code raises itself is
  \<^verbatim>\<open>ValueError("Could not find a valid bracket containing the root.")\<close>;
  \<^verbatim>\<open>update_dashboard\<close> catches \<^verbatim>\<open>ValueError\<close>.
\<close>

datatype error = ValueError string

definition no_bracket :: error where
  "no_bracket = ValueError ''Could not find a valid bracket containing the root.''"

subsection \<open>The scalar simulation\<close>

text \<open>
  The body of the loop of \<^verbatim>\<open>calculate_balance_with_skip_growth\<close>
  (lines 122 to 127): from the balance at the start of \<open>year\<close> to the balance at its end.
  Python reads \<^verbatim>\<open>balance + asset_growth - expenses\<close> as
  \<^verbatim>\<open>(balance + asset_growth) - expenses\<close>, and so does HOL.
\<close>

definition skip_growth_year ::
  "'a::{zero,plus,minus,power} \<Rightarrow> 'a \<Rightarrow> 'a \<Rightarrow> 'a \<Rightarrow> int \<Rightarrow> 'a" where
  "skip_growth_year E0 i r balance year =
     (let expenses = E0 * (1 + i) ^ nat (year - 1);
          asset_growth = (if year = 1 then 0 else balance * r)
      in balance + asset_growth - expenses)"

definition calculate_balance_with_skip_growth ::
  "'a::{zero,plus,minus,power} \<Rightarrow> int \<Rightarrow> 'a \<Rightarrow> 'a \<Rightarrow> 'a \<Rightarrow> 'a \<Rightarrow> 'a" where
  "calculate_balance_with_skip_growth A n_years E0 i r V =
     (let initial_balance = A * V
      in foldl (skip_growth_year E0 i r) initial_balance [1..n_years])"

subsection \<open>The solver\<close>

text \<open>The objective \<^verbatim>\<open>balance_to_zero\<close>, closed over the parameters.\<close>

definition balance_to_zero :: "int \<Rightarrow> real \<Rightarrow> real \<Rightarrow> real \<Rightarrow> real \<Rightarrow> real \<Rightarrow> real" where
  "balance_to_zero n_years E0 i r V A = calculate_balance_with_skip_growth A n_years E0 i r V"

text \<open>
  The test \<^verbatim>\<open>fa * fb > 0\<close> of line 137, on two doubles. The product of two
  doubles is their exact product rounded to the nearest double, a tie going to the
  even one, and the least positive double is \<open>2 ^ - 1074\<close>. So the product is a
  positive double exactly when the exact product is above \<open>2 ^ - 1075\<close>: a positive
  product that is not above it underflows to \<^verbatim>\<open>0.0\<close>, and the test fails as it
  does for a product that is zero or negative. (A product too large for a double is
  \<^verbatim>\<open>inf\<close>, which is positive too.)
\<close>

definition float_product_positive :: "real \<Rightarrow> real \<Rightarrow> bool" where
  "float_product_positive x y = (x * y > 1 / 2 ^ 1075)"

text \<open>
  The \<^verbatim>\<open>while\<close> loop of lines 137 to 142, on the variables
  \<^verbatim>\<open>a, b, fa, fb\<close>. It returns the bracket it leaves with, or the error it raises.
  The test of the bounds comes after the new \<^verbatim>\<open>fa, fb\<close> are computed and
  before the loop's condition is read again. Halving and doubling a double are
  exact, so the ends of the bracket are the same numbers in Python and here.
\<close>

function bracket_loop ::
  "(real \<Rightarrow> real) \<Rightarrow> real \<Rightarrow> real \<Rightarrow> real \<Rightarrow> real \<Rightarrow> error + real \<times> real" where
  "bracket_loop f a b fa fb =
     (if float_product_positive fa fb then
        (let a' = a / 2;
             b' = b * 2;
             fa' = f a';
             fb' = f b'
         in if \<bar>a'\<bar> < 1 / 10 ^ 8 \<or> \<bar>b'\<bar> > 10 ^ 8 then Inl no_bracket
            else bracket_loop f a' b' fa' fb')
      else Inr (a, b))"
  by pat_completeness auto
termination bracket_loop
proof (relation "measure (\<lambda>(f, a, b, fa, fb). nat \<lfloor>\<bar>a\<bar> * 10 ^ 8\<rfloor>)", goal_cases)
  case 1
  then show ?case by simp
next
  case (2 f a b fa fb a' b' fa' fb')
  from 2(2) have a': "\<bar>a'\<bar> = \<bar>a\<bar> / 2" by simp
  from 2(6) have "1 / 10 ^ 8 \<le> \<bar>a'\<bar>" by (simp add: not_less)
  with a' have h: "1 / 10 ^ 8 \<le> \<bar>a\<bar> / 2" by simp
  have "\<bar>a\<bar> / 2 * 10 ^ 8 \<le> \<bar>a\<bar> * 10 ^ 8 - 1" using h by simp
  then have "\<lfloor>\<bar>a\<bar> / 2 * 10 ^ 8\<rfloor> \<le> \<lfloor>\<bar>a\<bar> * 10 ^ 8 - 1\<rfloor>" by (rule floor_mono)
  then have "\<lfloor>\<bar>a\<bar> / 2 * 10 ^ 8\<rfloor> < \<lfloor>\<bar>a\<bar> * 10 ^ 8\<rfloor>" by simp
  moreover have "0 \<le> \<lfloor>\<bar>a\<bar> / 2 * 10 ^ 8\<rfloor>" by simp
  ultimately have "nat \<lfloor>\<bar>a'\<bar> * 10 ^ 8\<rfloor> < nat \<lfloor>\<bar>a\<bar> * 10 ^ 8\<rfloor>"
    unfolding a' by linarith
  then show ?case by simp
qed

declare bracket_loop.simps [simp del]

text \<open>
  The same loop with a budget of iterations: each run of the body uses one unit, and
  the result is \<open>None\<close> when the condition still holds with the budget used up. It
  serves to count the iterations of \<open>bracket_loop\<close>.
\<close>

fun bracket_loop_fuel ::
  "nat \<Rightarrow> (real \<Rightarrow> real) \<Rightarrow> real \<Rightarrow> real \<Rightarrow> real \<Rightarrow> real \<Rightarrow> (error + real \<times> real) option" where
  "bracket_loop_fuel n f a b fa fb =
     (if float_product_positive fa fb then
        (case n of
           0 \<Rightarrow> None
         | Suc m \<Rightarrow>
             (let a' = a / 2;
                  b' = b * 2;
                  fa' = f a';
                  fb' = f b'
              in if \<bar>a'\<bar> < 1 / 10 ^ 8 \<or> \<bar>b'\<bar> > 10 ^ 8 then Some (Inl no_bracket)
                 else bracket_loop_fuel m f a' b' fa' fb'))
      else Some (Inr (a, b)))"

declare bracket_loop_fuel.simps [simp del]

text \<open>
  Lines 131 to 142 of \<^verbatim>\<open>find_required_assets_with_skip_growth\<close>: the first
  bracket \<^verbatim>\<open>a, b = 0.01, 100\<close>, the objective at both ends, and the loop.
\<close>

definition find_bracket :: "int \<Rightarrow> real \<Rightarrow> real \<Rightarrow> real \<Rightarrow> real \<Rightarrow> error + real \<times> real" where
  "find_bracket n_years E0 i r V =
     (let a = 1 / 100;
          b = 100;
          fa = balance_to_zero n_years E0 i r V a;
          fb = balance_to_zero n_years E0 i r V b
      in bracket_loop (balance_to_zero n_years E0 i r V) a b fa fb)"

text \<open>
  The ends of the bracket after \<open>k\<close> runs of the loop's body: \<^verbatim>\<open>0.01\<close>
  halved \<open>k\<close> times and \<^verbatim>\<open>100\<close> doubled \<open>k\<close> times. They serve to state
  what the loop does.
\<close>

definition bracket_low :: "nat \<Rightarrow> real" where
  "bracket_low k = 1 / 100 / 2 ^ k"

definition bracket_high :: "nat \<Rightarrow> real" where
  "bracket_high k = 100 * 2 ^ k"

text \<open>
  The whole of \<^verbatim>\<open>find_required_assets_with_skip_growth\<close>. SciPy's
  \<^verbatim>\<open>root_scalar(f, bracket=[a, b], method='brentq')\<close> is a library outside the
  program: it is the parameter \<open>root_scalar\<close>, any function of the objective and the
  two ends of the bracket, which gives a root or raises.
\<close>

definition find_required_assets_with_skip_growth ::
  "((real \<Rightarrow> real) \<Rightarrow> real \<Rightarrow> real \<Rightarrow> error + real) \<Rightarrow>
     int \<Rightarrow> real \<Rightarrow> real \<Rightarrow> real \<Rightarrow> real \<Rightarrow> error + real" where
  "find_required_assets_with_skip_growth root_scalar n_years E0 i r V =
     (case find_bracket n_years E0 i r V of
        Inl e \<Rightarrow> Inl e
      | Inr (a, b) \<Rightarrow> root_scalar (balance_to_zero n_years E0 i r V) a b)"




subsection \<open>The table\<close>

text \<open>
  A cell of the table holds a number, a text, a calendar year, or the text
  \<^verbatim>\<open>f"{appreciation}%%"\<close> made of the appreciation in percent (\<open>RateText\<close>).
\<close>

datatype 'a cell = Number 'a | Text string | YearNo int | RateText 'a

record 'a row =
  Year :: "'a cell"
  Starting_Balance :: "'a cell"
  Appreciation_Rate :: "'a cell"
  Appreciation_Value :: "'a cell"
  Subtotal :: "'a cell"
  Living_Expenses :: "'a cell"
  Ending_Balance :: "'a cell"

text \<open>The variables the loop of lines 163 to 182 updates.\<close>

record 'a table_state =
  balance :: 'a
  data :: "'a row list"
  total_expenses :: 'a
  total_appreciation :: 'a

text \<open>
  Python's \<^verbatim>\<open>round(x, 0)\<close>: the nearest whole number, a tie going to the even
  one.
\<close>

definition round_py :: "real \<Rightarrow> real" where
  "round_py x =
     (let n = \<lfloor>x\<rfloor>;
          d = x - of_int n
      in if d < 1 / 2 then of_int n
         else if 1 / 2 < d then of_int (n + 1)
         else if even n then of_int n
         else of_int (n + 1))"

text \<open>
  One run of the body of the loop (lines 164 to 182). The rounding function is a
  parameter, so that the loop is defined at every number type; \<^verbatim>\<open>update_dashboard\<close>
  uses it with \<open>round_py\<close>.
\<close>

definition table_year ::
  "('a \<Rightarrow> 'a) \<Rightarrow> int \<Rightarrow> 'a \<Rightarrow> 'a::{zero,plus,minus,power} \<Rightarrow> 'a \<Rightarrow> 'a \<Rightarrow>
     'a table_state \<Rightarrow> int \<Rightarrow> 'a table_state" where
  "table_year round0 start_year appreciation E0 inflation_rate appreciation_rate s year =
     (let expenses = E0 * (1 + inflation_rate) ^ nat (year - 1);
          asset_growth = (if year = 1 then 0 else balance s * appreciation_rate);
          subtotal = balance s + asset_growth;
          ending_balance = subtotal - expenses
      in \<lparr>balance = ending_balance,
          data = data s @
            [\<lparr>Year = YearNo (start_year + year - 1),
              Starting_Balance = Number (round0 (balance s)),
              Appreciation_Rate = RateText appreciation,
              Appreciation_Value = Number (round0 asset_growth),
              Subtotal = Number (round0 subtotal),
              Living_Expenses = Number (round0 expenses),
              Ending_Balance = Number (round0 ending_balance)\<rparr>],
          total_expenses = total_expenses s + expenses,
          total_appreciation = total_appreciation s + asset_growth\<rparr>)"

text \<open>Lines 158 to 182: the variables before the loop, and the loop.\<close>

definition table_loop ::
  "('a \<Rightarrow> 'a) \<Rightarrow> int \<Rightarrow> 'a \<Rightarrow> 'a::{zero,plus,minus,power} \<Rightarrow> 'a \<Rightarrow> 'a \<Rightarrow>
     'a \<Rightarrow> 'a \<Rightarrow> int \<Rightarrow> 'a table_state" where
  "table_loop round0 start_year appreciation E0 inflation_rate appreciation_rate
       A_required asset_value years =
     foldl (table_year round0 start_year appreciation E0 inflation_rate appreciation_rate)
       \<lparr>balance = A_required * asset_value, data = [], total_expenses = 0,
        total_appreciation = 0\<rparr>
       [1..years]"





section \<open>Properties\<close>

subsection \<open>The loops, year by year\<close>

text \<open>
  With no year to run the result is the initial balance; otherwise the balance after
  \<open>y\<close> years is one run of the body on the balance after \<open>y - 1\<close> years, and a
  longer run goes on from there. These hold at every number type.
\<close>

lemma calculate_balance_empty:
  "n_years < 1 \<Longrightarrow> calculate_balance_with_skip_growth A n_years E0 i r V = A * V"
  by (simp add: calculate_balance_with_skip_growth_def)

lemma calculate_balance_step:
  "1 \<le> y \<Longrightarrow>
   calculate_balance_with_skip_growth A y E0 i r V =
     skip_growth_year E0 i r (calculate_balance_with_skip_growth A (y - 1) E0 i r V) y"
  by (simp add: calculate_balance_with_skip_growth_def upto_rec2 [of 1 y])

lemma calculate_balance_prefix:
  "0 \<le> y \<Longrightarrow> y \<le> n \<Longrightarrow>
   calculate_balance_with_skip_growth A n E0 i r V =
     foldl (skip_growth_year E0 i r) (calculate_balance_with_skip_growth A y E0 i r V) [y + 1..n]"
proof -
  assume "0 \<le> y" "y \<le> n"
  then have "[1..n] = [1..y] @ [y + 1..n]"
    using upto_split2 [of 1 "y" n] upto_split2
    by (cases "y = 0") (auto)
  then show ?thesis
    by (simp add: calculate_balance_with_skip_growth_def)
qed

lemma balance_table_year:
  "balance (table_year round0 sy ap E0 i r s y) = skip_growth_year E0 i r (balance s) y"
  by (simp add: table_year_def skip_growth_year_def Let_def)

lemma balance_foldl_table_year:
  "balance (foldl (table_year round0 sy ap E0 i r) s ys) =
     foldl (skip_growth_year E0 i r) (balance s) ys"
  by (induction ys arbitrary: s) (simp_all add: balance_table_year)

lemma balance_table_loop:
  "balance (table_loop round0 sy ap E0 i r A V n) = calculate_balance_with_skip_growth A n E0 i r V"
  by (simp add: table_loop_def calculate_balance_with_skip_growth_def balance_foldl_table_year)

lemma table_loop_step:
  "1 \<le> y \<Longrightarrow>
   table_loop round0 sy ap E0 i r A V y =
     table_year round0 sy ap E0 i r (table_loop round0 sy ap E0 i r A V (y - 1)) y"
  by (simp add: table_loop_def upto_rec2 [of 1 y])

lemma table_loop_prefix:
  "0 \<le> y \<Longrightarrow> y \<le> n \<Longrightarrow>
   table_loop round0 sy ap E0 i r A V n =
     foldl (table_year round0 sy ap E0 i r) (table_loop round0 sy ap E0 i r A V y) [y + 1..n]"
proof -
  assume "0 \<le> y" "y \<le> n"
  then have "[1..n] = [1..y] @ [y + 1..n]"
    using upto_split2 [of 1 "y" n]
    by (cases "y = 0") (auto)
  then show ?thesis
    by (simp add: table_loop_def)
qed

lemma data_table_year:
  "data (table_year round0 sy ap E0 i r s y) =
     data s @
       [\<lparr>Year = YearNo (sy + y - 1),
         Starting_Balance = Number (round0 (balance s)),
         Appreciation_Rate = RateText ap,
         Appreciation_Value = Number (round0 (if y = 1 then 0 else balance s * r)),
         Subtotal = Number (round0 (balance s + (if y = 1 then 0 else balance s * r))),
         Living_Expenses = Number (round0 (E0 * (1 + i) ^ nat (y - 1))),
         Ending_Balance = Number (round0 (skip_growth_year E0 i r (balance s) y))\<rparr>]"
  by (simp add: table_year_def skip_growth_year_def Let_def)

lemma data_foldl_table_year:
  "\<exists>rows. data (foldl (table_year round0 sy ap E0 i r) s ys) = data s @ rows \<and> length rows = length ys"
proof (induction ys arbitrary: s)
  case Nil
  then show ?case by simp
next
  case (Cons y ys)
  obtain rows where
    "data (foldl (table_year round0 sy ap E0 i r) (table_year round0 sy ap E0 i r s y) ys) =
       data (table_year round0 sy ap E0 i r s y) @ rows" "length rows = length ys"
    using Cons.IH by blast
  then show ?case by (simp add: data_table_year)
qed

lemma length_data_table_loop:
  "length (data (table_loop round0 sy ap E0 i r A V n)) = nat n"
  using data_foldl_table_year [of round0 sy ap E0 i r
     "\<lparr>balance = A * V, data = [], total_expenses = 0, total_appreciation = 0\<rparr>" "[1..n]"]
  by (auto simp: table_loop_def)

lemma data_table_loop_nth:
  assumes "1 \<le> y" "y \<le> n"
  shows "data (table_loop round0 sy ap E0 i r A V n) ! nat (y - 1) =
       \<lparr>Year = YearNo (sy + y - 1),
         Starting_Balance = Number (round0 (calculate_balance_with_skip_growth A (y - 1) E0 i r V)),
         Appreciation_Rate = RateText ap,
         Appreciation_Value = Number (round0 (if y = 1 then 0
            else calculate_balance_with_skip_growth A (y - 1) E0 i r V * r)),
         Subtotal = Number (round0 (calculate_balance_with_skip_growth A (y - 1) E0 i r V +
            (if y = 1 then 0 else calculate_balance_with_skip_growth A (y - 1) E0 i r V * r))),
         Living_Expenses = Number (round0 (E0 * (1 + i) ^ nat (y - 1))),
         Ending_Balance = Number (round0 (calculate_balance_with_skip_growth A y E0 i r V))\<rparr>"
proof -
  let ?step = "table_year round0 sy ap E0 i r"
  let ?s = "table_loop round0 sy ap E0 i r A V"
  obtain rows where rows: "data (?s n) = data (?s y) @ rows"
    using data_foldl_table_year [of round0 sy ap E0 i r "?s y" "[y + 1..n]"]
      table_loop_prefix [of y n round0 sy ap E0 i r A V] assms by auto
  have len: "length (data (?s (y - 1))) = nat (y - 1)"
    by (rule length_data_table_loop)
  have "data (?s y) = data (?step (?s (y - 1)) y)"
    by (simp only: table_loop_step [OF assms(1)])
  then have "data (?s y) ! nat (y - 1) = last (data (?step (?s (y - 1)) y))"
    using len by (simp add: data_table_year nth_append)
  moreover have "nat (y - 1) < length (data (?s y))"
    using assms by (simp add: length_data_table_loop)
  ultimately have "data (?s n) ! nat (y - 1) = last (data (?step (?s (y - 1)) y))"
    using rows by (simp add: nth_append)
  then show ?thesis
    by (simp add: data_table_year balance_table_loop
        calculate_balance_step [OF assms(1), of A E0 i r V])
qed

subsection \<open>The objective in closed form\<close>

text \<open>
  At type \<open>real\<close> a year after the first multiplies the balance by \<open>1 + r\<close> and
  takes the year's expenses off, so the balance after \<open>n \<ge> 1\<close> years is affine in the
  quantity.
\<close>

lemma skip_growth_year_real:
  "skip_growth_year E0 i r b y =
     (if y = 1 then b - E0 else b * (1 + r) - E0 * (1 + i) ^ nat (y - 1))"
  for b :: real
  by (simp add: skip_growth_year_def algebra_simps)

lemma sum_int_snoc:
  fixes g :: "int \<Rightarrow> real"
  assumes "1 \<le> n"
  shows "sum g {1..n} = sum g {1..n - 1} + g n"
proof -
  have "{1..n} = insert n {1..n - 1}" using assms by auto
  moreover have "n \<notin> {1..n - 1}" by simp
  ultimately show ?thesis by (simp add: add.commute)
qed

lemma closed_form:
  fixes A E0 i r V :: real
  assumes "1 \<le> n"
  shows "calculate_balance_with_skip_growth A n E0 i r V =
      A * V * (1 + r) ^ nat (n - 1) -
      (\<Sum>y\<in>{1..n}. E0 * (1 + i) ^ nat (y - 1) * (1 + r) ^ nat (n - y))"
  using assms
proof (induction n rule: int_ge_induct)
  case base
  have "calculate_balance_with_skip_growth A 1 E0 i r V = A * V - E0"
    by (simp add: calculate_balance_step [of 1] calculate_balance_empty skip_growth_year_real)
  then show ?case by simp
next
  case (step n)
  let ?S = "\<lambda>m. (\<Sum>y\<in>{1..m}. E0 * (1 + i) ^ nat (y - 1) * (1 + r) ^ nat (m - y))"
  have pw: "(1 + r) ^ nat (n + 1 - 1) = (1 + r) ^ nat (n - 1) * (1 + r)"
    using step.hyps by (simp add: nat_diff_distrib flip: power_Suc2) 
  have "(\<Sum>y\<in>{1..n}. E0 * (1 + i) ^ nat (y - 1) * (1 + r) ^ nat (n + 1 - y)) =
        (\<Sum>y\<in>{1..n}. E0 * (1 + i) ^ nat (y - 1) * (1 + r) ^ nat (n - y) * (1 + r))"
  proof (rule sum.cong [OF refl])
    fix y assume "y \<in> {1..n}"
    then have "nat (n + 1 - y) = Suc (nat (n - y))" by auto
    then show "E0 * (1 + i) ^ nat (y - 1) * (1 + r) ^ nat (n + 1 - y) =
        E0 * (1 + i) ^ nat (y - 1) * (1 + r) ^ nat (n - y) * (1 + r)" by simp
  qed
  then have S: "?S (n + 1) = ?S n * (1 + r) + E0 * (1 + i) ^ nat n"
    using step.hyps by (simp add: sum_int_snoc [of "n + 1"] sum_distrib_right)
  have "calculate_balance_with_skip_growth A (n + 1) E0 i r V =
      calculate_balance_with_skip_growth A n E0 i r V * (1 + r) - E0 * (1 + i) ^ nat n"
    using step.hyps by (simp add: calculate_balance_step [of "n + 1"] skip_growth_year_real)
  also have "\<dots> = (A * V * (1 + r) ^ nat (n - 1) - ?S n) * (1 + r) - E0 * (1 + i) ^ nat n"
    by (simp only: step.IH)
  also have "\<dots> = A * V * (1 + r) ^ nat (n + 1 - 1) - ?S (n + 1)"
    unfolding S pw by (simp add: algebra_simps)
  finally show ?case .
qed

subsection \<open>The scalar objective and the table agree\<close>

text \<open>
  Claim C6. The loop that builds the table and \<open>calculate_balance_with_skip_growth\<close>
  run the same recurrence: the balance the table's loop ends with is the value of
  \<open>calculate_balance_with_skip_growth\<close> at the same arguments. The statement is at an
  arbitrary number type with no law of arithmetic assumed, so the two values come
  from the same operations in the same order and agree bit for bit in any
  arithmetic. When there is at least one year, the cell \<open>Ending_Balance\<close> of the last
  year's row is that value, rounded for display.
\<close>

theorem table_loop_agrees_with_scalar:
  "balance (table_loop round0 start_year appreciation E0 i r A V n) =
     calculate_balance_with_skip_growth A n E0 i r V \<and>
   (1 \<le> n \<longrightarrow>
      Ending_Balance (last (data (table_loop round0 start_year appreciation E0 i r A V n))) =
        Number (round0 (calculate_balance_with_skip_growth A n E0 i r V)))"
proof (intro conjI impI)
  show "balance (table_loop round0 start_year appreciation E0 i r A V n) =
      calculate_balance_with_skip_growth A n E0 i r V"
    by (rule balance_table_loop)
next
  assume n: "1 \<le> n"
  let ?rows = "data (table_loop round0 start_year appreciation E0 i r A V n)"
  have len: "length ?rows = nat n"
    by (rule length_data_table_loop)
  with n have "?rows \<noteq> []" by auto
  then have "last ?rows = ?rows ! nat (n - 1)"
    using len n by (simp add: last_conv_nth nat_diff_distrib)
  then show "Ending_Balance (last ?rows) =
      Number (round0 (calculate_balance_with_skip_growth A n E0 i r V))"
    using data_table_loop_nth [OF n order_refl, of round0 start_year appreciation E0 i r A V]
    by simp
qed

theorem table_loop_agrees_with_scalar_witness:
  "(1::int) \<le> 2 \<and>
   balance (table_loop round_py 2032 15 60000 (7 / 100) (15 / 100) (2 / 5) 623197 2) =
     calculate_balance_with_skip_growth (2 / 5) 2 60000 (7 / 100) (15 / 100) 623197 \<and>
   Ending_Balance (last (data
       (table_loop round_py 2032 15 60000 (7 / 100) (15 / 100) (2 / 5) 623197 2))) =
     Number (round_py
       (calculate_balance_with_skip_growth (2 / 5) 2 60000 (7 / 100) (15 / 100) 623197))"
  using table_loop_agrees_with_scalar
    [of round_py 2032 15 60000 "7 / 100" "15 / 100" "2 / 5" 623197 2]
  by simp

subsection \<open>The objective is affine, with one root\<close>

lemma closed_form_slope_pos:
  fixes r V :: real
  shows "0 < V \<Longrightarrow> - 1 < r \<Longrightarrow> 0 < V * (1 + r) ^ k"
  by simp

text \<open>
  Claim C10. For a horizon of \<open>n \<ge> 1\<close> years the objective is affine in the quantity
  \<open>A\<close>: it is \<open>A * V * (1 + r) ^ (n - 1)\<close> less the sum, over the years \<open>y\<close> from 1 to
  \<open>n\<close>, of \<open>E0 * (1 + i) ^ (y - 1) * (1 + r) ^ (n - y)\<close>. Hence, when the unit value is
  positive and the appreciation rate is above \<open>-1\<close>, exactly one quantity makes the final
  balance zero.
\<close>

theorem objective_affine_unique_root:
  fixes A E0 i r V :: real
  assumes "1 \<le> n"
  shows "calculate_balance_with_skip_growth A n E0 i r V =
      A * V * (1 + r) ^ nat (n - 1) -
      (\<Sum>y\<in>{1..n}. E0 * (1 + i) ^ nat (y - 1) * (1 + r) ^ nat (n - y)) \<and>
    (0 < V \<and> - 1 < r \<longrightarrow> (\<exists>!x. calculate_balance_with_skip_growth x n E0 i r V = 0))"
proof (intro conjI impI)
  show "calculate_balance_with_skip_growth A n E0 i r V =
      A * V * (1 + r) ^ nat (n - 1) -
      (\<Sum>y\<in>{1..n}. E0 * (1 + i) ^ nat (y - 1) * (1 + r) ^ nat (n - y))"
    by (rule closed_form [OF assms])
next
  assume pos: "0 < V \<and> - 1 < r"
  define c where "c = V * (1 + r) ^ nat (n - 1)"
  define S where "S = (\<Sum>y\<in>{1..n}. E0 * (1 + i) ^ nat (y - 1) * (1 + r) ^ nat (n - y))"
  have c: "0 < c" using pos by (simp add: c_def)
  have f: "calculate_balance_with_skip_growth x n E0 i r V = x * c - S" for x
    by (simp add: closed_form [OF assms] c_def S_def)
  show "\<exists>!x. calculate_balance_with_skip_growth x n E0 i r V = 0"
  proof (rule ex1I [of _ "S / c"])
    show "calculate_balance_with_skip_growth (S / c) n E0 i r V = 0"
      using c by (simp add: f)
  next
    fix x assume "calculate_balance_with_skip_growth x n E0 i r V = 0"
    then have "x * c = S" by (simp add: f)
    then show "x = S / c" using c by (simp add: field_simps)
  qed
qed

theorem objective_affine_unique_root_witness:
  "(1::int) \<le> 2 \<and> (0::real) < 623197 \<and> - 1 < (15 / 100 :: real) \<and>
   calculate_balance_with_skip_growth (2 / 5) 2 60000 (7 / 100) (15 / 100) (623197::real) =
      2 / 5 * 623197 * (1 + 15 / 100) ^ nat (2 - 1) -
      (\<Sum>y\<in>{1..2}. 60000 * (1 + 7 / 100) ^ nat (y - 1) * (1 + 15 / 100) ^ nat (2 - y)) \<and>
   (\<exists>!x. calculate_balance_with_skip_growth x 2 60000 (7 / 100) (15 / 100) (623197::real) = 0)"
  using objective_affine_unique_root [of 2 "2 / 5" 60000 "7 / 100" "15 / 100" 623197]
  by simp

subsection \<open>The objective is monotone\<close>

lemma skip_growth_year_mono:
  fixes b1 b2 :: real
  assumes "- 1 < r" "b1 \<le> b2"
  shows "skip_growth_year E0 i r b1 y \<le> skip_growth_year E0 i r b2 y"
  using assms by (simp add: skip_growth_year_real mult_right_mono)

lemma skip_growth_year_strict_mono:
  fixes b1 b2 :: real
  assumes "- 1 < r" "b1 < b2"
  shows "skip_growth_year E0 i r b1 y < skip_growth_year E0 i r b2 y"
  using assms by (simp add: skip_growth_year_real)

lemma foldl_skip_growth_year_mono:
  fixes b1 b2 :: real
  shows "- 1 < r \<Longrightarrow> b1 \<le> b2 \<Longrightarrow>
    foldl (skip_growth_year E0 i r) b1 ys \<le> foldl (skip_growth_year E0 i r) b2 ys"
  by (induction ys arbitrary: b1 b2) (simp_all add: skip_growth_year_mono)

lemma foldl_skip_growth_year_strict_mono:
  fixes b1 b2 :: real
  shows "- 1 < r \<Longrightarrow> b1 < b2 \<Longrightarrow>
    foldl (skip_growth_year E0 i r) b1 ys < foldl (skip_growth_year E0 i r) b2 ys"
  by (induction ys arbitrary: b1 b2) (simp_all add: skip_growth_year_strict_mono)

text \<open>
  Claim C4. For a positive unit value and an appreciation rate above \<open>-1\<close>, the final
  balance does not decrease when the quantity grows, and it grows strictly when the
  quantity does; this holds for every horizon and for all quantities, the
  non-negative ones among them.
\<close>

theorem objective_monotone:
  fixes A1 A2 E0 i r V :: real
  assumes "0 < V" and "- 1 < r"
  shows "(A1 \<le> A2 \<longrightarrow>
       calculate_balance_with_skip_growth A1 n E0 i r V \<le>
       calculate_balance_with_skip_growth A2 n E0 i r V) \<and>
     (A1 < A2 \<longrightarrow>
       calculate_balance_with_skip_growth A1 n E0 i r V <
       calculate_balance_with_skip_growth A2 n E0 i r V)"
  using assms
  by (simp add: calculate_balance_with_skip_growth_def foldl_skip_growth_year_mono
      foldl_skip_growth_year_strict_mono)

theorem objective_monotone_witness:
  "(0::real) < 623197 \<and> - 1 < (15 / 100 :: real) \<and> (1 / 100 :: real) \<le> 100 \<and>
   (1 / 100 :: real) < 100 \<and>
   calculate_balance_with_skip_growth (1 / 100) 3 60000 (7 / 100) (15 / 100) (623197::real) \<le>
   calculate_balance_with_skip_growth 100 3 60000 (7 / 100) (15 / 100) 623197 \<and>
   calculate_balance_with_skip_growth (1 / 100) 3 60000 (7 / 100) (15 / 100) (623197::real) <
   calculate_balance_with_skip_growth 100 3 60000 (7 / 100) (15 / 100) 623197"
  using objective_monotone [of 623197 "15 / 100" "1 / 100" 100 3 60000 "7 / 100"]
  by simp

subsection \<open>Expenses and appreciation, year by year\<close>

text \<open>
  The two running totals of the table's loop grow by the year's expenses and by the
  year's appreciation; at type \<open>real\<close> they are the sums over the years run.
\<close>

lemma total_expenses_table_year:
  "total_expenses (table_year round0 sy ap E0 i r s y) =
     total_expenses s + E0 * (1 + i) ^ nat (y - 1)"
  by (simp add: table_year_def Let_def)

lemma total_appreciation_table_year:
  "total_appreciation (table_year round0 sy ap E0 i r s y) =
     total_appreciation s + (if y = 1 then 0 else balance s * r)"
  by (simp add: table_year_def Let_def)

lemma table_loop_empty:
  "n < 1 \<Longrightarrow> table_loop round0 sy ap E0 i r A V n =
     \<lparr>balance = A * V, data = [], total_expenses = 0, total_appreciation = 0\<rparr>"
  by (simp add: table_loop_def)

lemma total_expenses_table_loop:
  fixes E0 i :: real
  shows "total_expenses (table_loop round0 sy ap E0 i r A V n) =
     (\<Sum>y\<in>{1..n}. E0 * (1 + i) ^ nat (y - 1))"
proof (cases "1 \<le> n")
  case False
  then show ?thesis by (simp add: table_loop_empty)
next
  case True
  then show ?thesis
  proof (induction n rule: int_ge_induct)
    case base
    show ?case
      by (simp add: table_loop_step [of 1] table_loop_empty total_expenses_table_year)
  next
    case (step n)
    then show ?case
      by (simp add: table_loop_step [of "n + 1"] total_expenses_table_year
          sum_int_snoc [of "n + 1"])
  qed
qed

lemma total_appreciation_table_loop:
  fixes r :: real
  shows "total_appreciation (table_loop round0 sy ap E0 i r A V n) =
     (\<Sum>y\<in>{1..n}. if y = 1 then 0
         else calculate_balance_with_skip_growth A (y - 1) E0 i r V * r)"
proof (cases "1 \<le> n")
  case False
  then show ?thesis by (simp add: table_loop_empty)
next
  case True
  then show ?thesis
  proof (induction n rule: int_ge_induct)
    case base
    show ?case
      by (simp add: table_loop_step [of 1] table_loop_empty total_appreciation_table_year)
  next
    case (step n)
    then show ?case
      by (simp add: table_loop_step [of "n + 1"] total_appreciation_table_year
          sum_int_snoc [of "n + 1"] balance_table_loop)
  qed
qed

lemma round_py_0: "round_py 0 = 0"
  by (simp add: round_py_def)

text \<open>
  Claim C2. In every year \<open>y\<close> from 1 to the horizon \<open>n\<close> the expenses taken off are
  \<open>E0 * (1 + i) ^ (y - 1)\<close>, whatever the quantity: the balance after year \<open>y\<close> is the
  balance after year \<open>y - 1\<close>, plus the year's appreciation, less that amount, and the
  run over \<open>n\<close> years goes on from there; the table's total of expenses grows by that
  amount in year \<open>y\<close>, and the row of year \<open>y\<close> shows it rounded. In year 1 the
  expenses are the base \<open>E0\<close> itself.
\<close>

theorem expenses_compound_from_base:
  fixes A E0 i r V :: real
  assumes "1 \<le> y" and "y \<le> n"
  shows "calculate_balance_with_skip_growth A y E0 i r V =
      calculate_balance_with_skip_growth A (y - 1) E0 i r V +
      (if y = 1 then 0 else calculate_balance_with_skip_growth A (y - 1) E0 i r V * r) -
      E0 * (1 + i) ^ nat (y - 1) \<and>
    calculate_balance_with_skip_growth A n E0 i r V =
      foldl (skip_growth_year E0 i r) (calculate_balance_with_skip_growth A y E0 i r V)
        [y + 1..n] \<and>
    total_expenses (table_loop round_py sy ap E0 i r A V y) =
      total_expenses (table_loop round_py sy ap E0 i r A V (y - 1)) +
      E0 * (1 + i) ^ nat (y - 1) \<and>
    Living_Expenses (data (table_loop round_py sy ap E0 i r A V n) ! nat (y - 1)) =
      Number (round_py (E0 * (1 + i) ^ nat (y - 1))) \<and>
    calculate_balance_with_skip_growth A 1 E0 i r V = A * V - E0 \<and>
    total_expenses (table_loop round_py sy ap E0 i r A V 1) = E0"
proof (intro conjI)
  show "calculate_balance_with_skip_growth A y E0 i r V =
      calculate_balance_with_skip_growth A (y - 1) E0 i r V +
      (if y = 1 then 0 else calculate_balance_with_skip_growth A (y - 1) E0 i r V * r) -
      E0 * (1 + i) ^ nat (y - 1)"
    by (simp add: calculate_balance_step [OF assms(1)] skip_growth_year_def)
  show "calculate_balance_with_skip_growth A n E0 i r V =
      foldl (skip_growth_year E0 i r) (calculate_balance_with_skip_growth A y E0 i r V)
        [y + 1..n]"
    using assms by (intro calculate_balance_prefix) simp_all
  show "total_expenses (table_loop round_py sy ap E0 i r A V y) =
      total_expenses (table_loop round_py sy ap E0 i r A V (y - 1)) +
      E0 * (1 + i) ^ nat (y - 1)"
    by (simp add: table_loop_step [OF assms(1)] total_expenses_table_year)
  show "Living_Expenses (data (table_loop round_py sy ap E0 i r A V n) ! nat (y - 1)) =
      Number (round_py (E0 * (1 + i) ^ nat (y - 1)))"
    by (simp add: data_table_loop_nth [OF assms])
  show "calculate_balance_with_skip_growth A 1 E0 i r V = A * V - E0"
    by (simp add: calculate_balance_step [of 1] calculate_balance_empty skip_growth_year_real)
  show "total_expenses (table_loop round_py sy ap E0 i r A V 1) = E0"
    by (simp add: total_expenses_table_loop)
qed

theorem expenses_compound_from_base_witness:
  "(1::int) \<le> 2 \<and> (2::int) \<le> 3 \<and>
   calculate_balance_with_skip_growth (2 / 5) 2 60000 (7 / 100) (15 / 100) (623197::real) =
      calculate_balance_with_skip_growth (2 / 5) (2 - 1) 60000 (7 / 100) (15 / 100) 623197 +
      calculate_balance_with_skip_growth (2 / 5) (2 - 1) 60000 (7 / 100) (15 / 100) 623197 *
        (15 / 100) -
      60000 * (1 + 7 / 100) ^ nat (2 - 1) \<and>
   Living_Expenses
     (data (table_loop round_py 2032 15 60000 (7 / 100) (15 / 100) (2 / 5) 623197 3) !
        nat (2 - 1)) =
      Number (round_py (60000 * (1 + 7 / 100) ^ nat (2 - 1))) \<and>
   calculate_balance_with_skip_growth (2 / 5) 1 60000 (7 / 100) (15 / 100) (623197::real) =
     2 / 5 * 623197 - 60000"
  using expenses_compound_from_base [of 2 3 "2 / 5" 60000 "7 / 100" "15 / 100" 623197 2032 15]
  by simp

text \<open>
  Claim C3. With a horizon of at least two years, no appreciation is applied in year
  1: the row of year 1 shows 0, the total of appreciation after year 1 is 0, and the
  balance after year 1 is the initial balance less the base expenses. In every year
  \<open>y \<ge> 2\<close> the appreciation is the balance at the start of that year (the balance
  after year \<open>y - 1\<close>) times the appreciation rate. So the appreciation of year 2 is
  the ending balance of year 1 times the rate. The cells of the rows show these
  amounts rounded.
\<close>

theorem growth_skipped_in_first_year:
  fixes A E0 i r V :: real
  assumes "2 \<le> n"
  shows "Appreciation_Value (data (table_loop round_py sy ap E0 i r A V n) ! 0) = Number 0 \<and>
    total_appreciation (table_loop round_py sy ap E0 i r A V 1) = 0 \<and>
    balance (table_loop round_py sy ap E0 i r A V 1) = A * V - E0 \<and>
    calculate_balance_with_skip_growth A 1 E0 i r V = A * V - E0 \<and>
    (\<forall>y. 2 \<le> y \<and> y \<le> n \<longrightarrow>
       Starting_Balance (data (table_loop round_py sy ap E0 i r A V n) ! nat (y - 1)) =
         Number (round_py (balance (table_loop round_py sy ap E0 i r A V (y - 1)))) \<and>
       Appreciation_Value (data (table_loop round_py sy ap E0 i r A V n) ! nat (y - 1)) =
         Number (round_py (balance (table_loop round_py sy ap E0 i r A V (y - 1)) * r)) \<and>
       total_appreciation (table_loop round_py sy ap E0 i r A V y) =
         total_appreciation (table_loop round_py sy ap E0 i r A V (y - 1)) +
         balance (table_loop round_py sy ap E0 i r A V (y - 1)) * r \<and>
       calculate_balance_with_skip_growth A y E0 i r V =
         calculate_balance_with_skip_growth A (y - 1) E0 i r V +
         calculate_balance_with_skip_growth A (y - 1) E0 i r V * r -
         E0 * (1 + i) ^ nat (y - 1)) \<and>
    Appreciation_Value (data (table_loop round_py sy ap E0 i r A V n) ! 1) =
      Number (round_py ((A * V - E0) * r))"
proof -
  have one: "calculate_balance_with_skip_growth A 1 E0 i r V = A * V - E0"
    by (simp add: calculate_balance_step [of 1] calculate_balance_empty skip_growth_year_real)
  have n1: "(1::int) \<le> 1" "1 \<le> n" "(1::int) \<le> 2" using assms by simp_all
  have row1: "Appreciation_Value (data (table_loop round_py sy ap E0 i r A V n) ! 0) = Number 0"
    using data_table_loop_nth [OF n1(1) n1(2), of round_py sy ap E0 i r A V]
    by (simp add: round_py_0)
  have tot1: "total_appreciation (table_loop round_py sy ap E0 i r A V 1) = 0"
    by (simp add: total_appreciation_table_loop)
  have years: "Starting_Balance (data (table_loop round_py sy ap E0 i r A V n) ! nat (y - 1)) =
         Number (round_py (balance (table_loop round_py sy ap E0 i r A V (y - 1)))) \<and>
       Appreciation_Value (data (table_loop round_py sy ap E0 i r A V n) ! nat (y - 1)) =
         Number (round_py (balance (table_loop round_py sy ap E0 i r A V (y - 1)) * r)) \<and>
       total_appreciation (table_loop round_py sy ap E0 i r A V y) =
         total_appreciation (table_loop round_py sy ap E0 i r A V (y - 1)) +
         balance (table_loop round_py sy ap E0 i r A V (y - 1)) * r \<and>
       calculate_balance_with_skip_growth A y E0 i r V =
         calculate_balance_with_skip_growth A (y - 1) E0 i r V +
         calculate_balance_with_skip_growth A (y - 1) E0 i r V * r -
         E0 * (1 + i) ^ nat (y - 1)" if y: "2 \<le> y \<and> y \<le> n" for y
  proof -
    from y have y1: "1 \<le> y" and yn: "y \<le> n" and ne: "y \<noteq> 1" by simp_all
    show ?thesis
      using ne
      by (simp add: data_table_loop_nth [OF y1 yn] balance_table_loop
          table_loop_step [OF y1] total_appreciation_table_year
          calculate_balance_step [OF y1, of A E0 i r V] skip_growth_year_def)
  qed
  have "Appreciation_Value (data (table_loop round_py sy ap E0 i r A V n) ! nat (2 - 1)) =
      Number (round_py ((A * V - E0) * r))"
    using data_table_loop_nth [OF n1(3) assms, of round_py sy ap E0 i r A V] one
    by simp
  then have row2: "Appreciation_Value (data (table_loop round_py sy ap E0 i r A V n) ! 1) =
      Number (round_py ((A * V - E0) * r))"
    by simp
  show ?thesis
    using row1 tot1 one years row2 by (simp add: balance_table_loop)
qed

theorem growth_skipped_in_first_year_witness:
  "(2::int) \<le> 2 \<and>
   Appreciation_Value
     (data (table_loop round_py 2032 15 60000 (7 / 100) (15 / 100) (2 / 5) 623197 2) ! 0) =
     Number 0 \<and>
   calculate_balance_with_skip_growth (2 / 5) 1 60000 (7 / 100) (15 / 100) (623197::real) =
     2 / 5 * 623197 - 60000 \<and>
   Appreciation_Value
     (data (table_loop round_py 2032 15 60000 (7 / 100) (15 / 100) (2 / 5) 623197 2) ! 1) =
     Number (round_py ((2 / 5 * 623197 - 60000) * (15 / 100)))"
  using growth_skipped_in_first_year [of 2 2032 15 60000 "7 / 100" "15 / 100" "2 / 5" 623197]
  by simp

subsection \<open>The bracket loop, run by run\<close>

text \<open>
  The ends of the bracket stay within the bounds \<^verbatim>\<open>1e-8\<close> and \<^verbatim>\<open>1e8\<close> for
  fewer than 20 runs of the body, and leave them, both at once, at the 20th. So one
  run of the loop from the \<open>k\<close>-th bracket either leaves with it, or goes on to the
  next bracket when that is one of the first 20, or raises.
\<close>

lemma two_power_small: "k < 20 \<Longrightarrow> (2::real) ^ k \<le> 1000000"
proof -
  assume "k < 20"
  then have "(2::real) ^ k \<le> 2 ^ 19" by (intro power_increasing) simp_all
  also have "\<dots> \<le> 1000000" by simp
  finally show ?thesis .
qed

lemma two_power_large: "20 \<le> k \<Longrightarrow> (1000000::real) < 2 ^ k"
proof -
  assume "20 \<le> k"
  then have "(2::real) ^ 20 \<le> 2 ^ k" by (intro power_increasing) simp_all
  moreover have "(1000000::real) < 2 ^ 20" by simp
  ultimately show ?thesis by linarith
qed

lemma bracket_in_bounds:
  "k < 20 \<Longrightarrow> \<not> (\<bar>bracket_low k\<bar> < 1 / 10 ^ 8 \<or> \<bar>bracket_high k\<bar> > 10 ^ 8)"
  using two_power_small [of k] by (simp add: bracket_low_def bracket_high_def field_simps)

lemma bracket_out_of_bounds:
  "20 \<le> k \<Longrightarrow> \<bar>bracket_low k\<bar> < 1 / 10 ^ 8 \<and> \<bar>bracket_high k\<bar> > 10 ^ 8"
  using two_power_large [of k] by (simp add: bracket_low_def bracket_high_def field_simps)

lemma bracket_low_Suc: "bracket_low k / 2 = bracket_low (Suc k)"
  by (simp add: bracket_low_def)

lemma bracket_high_Suc: "bracket_high k * 2 = bracket_high (Suc k)"
  by (simp add: bracket_high_def)

lemma bracket_loop_unroll:
  "bracket_loop f (bracket_low k) (bracket_high k) (f (bracket_low k)) (f (bracket_high k)) =
     (if float_product_positive (f (bracket_low k)) (f (bracket_high k)) then
        if Suc k < 20 then
          bracket_loop f (bracket_low (Suc k)) (bracket_high (Suc k))
            (f (bracket_low (Suc k))) (f (bracket_high (Suc k)))
        else Inl no_bracket
      else Inr (bracket_low k, bracket_high k))"
proof (cases "Suc k < 20")
  case True
  then show ?thesis
    using bracket_in_bounds [of "Suc k"]
    by (subst bracket_loop.simps) (simp add: Let_def bracket_low_Suc bracket_high_Suc)
next
  case False
  then have "20 \<le> Suc k" by simp
  then show ?thesis
    using bracket_out_of_bounds [of "Suc k"] False
    by (subst bracket_loop.simps) (simp add: Let_def bracket_low_Suc bracket_high_Suc)
qed

lemma bracket_loop_fuel_unroll:
  "bracket_loop_fuel (Suc m) f (bracket_low k) (bracket_high k) (f (bracket_low k))
       (f (bracket_high k)) =
     (if float_product_positive (f (bracket_low k)) (f (bracket_high k)) then
        if Suc k < 20 then
          bracket_loop_fuel m f (bracket_low (Suc k)) (bracket_high (Suc k))
            (f (bracket_low (Suc k))) (f (bracket_high (Suc k)))
        else Some (Inl no_bracket)
      else Some (Inr (bracket_low k, bracket_high k)))"
proof (cases "Suc k < 20")
  case True
  then show ?thesis
    using bracket_in_bounds [of "Suc k"]
    by (subst bracket_loop_fuel.simps) (simp add: Let_def bracket_low_Suc bracket_high_Suc)
next
  case False
  then have "20 \<le> Suc k" by simp
  then show ?thesis
    using bracket_out_of_bounds [of "Suc k"] False
    by (subst bracket_loop_fuel.simps) (simp add: Let_def bracket_low_Suc bracket_high_Suc)
qed

lemma bracket_loop_all_pass:
  assumes "k < 20"
    and "\<forall>j. k \<le> j \<and> j < 20 \<longrightarrow> float_product_positive (f (bracket_low j)) (f (bracket_high j))"
  shows "bracket_loop f (bracket_low k) (bracket_high k) (f (bracket_low k)) (f (bracket_high k)) =
     Inl no_bracket"
  using assms
proof (induction "19 - k" arbitrary: k)
  case 0
  then have "k = 19" by simp
  moreover have "float_product_positive (f (bracket_low k)) (f (bracket_high k))"
    using "0.prems" by simp
  ultimately show ?case by (subst bracket_loop_unroll) simp
next
  case (Suc d)
  then have lt: "Suc k < 20" "d = 19 - Suc k" by simp_all
  moreover have "\<forall>j. Suc k \<le> j \<and> j < 20 \<longrightarrow> float_product_positive (f (bracket_low j)) (f (bracket_high j))"
    using Suc.prems by simp
  ultimately have "bracket_loop f (bracket_low (Suc k)) (bracket_high (Suc k))
      (f (bracket_low (Suc k))) (f (bracket_high (Suc k))) = Inl no_bracket"
    using Suc.hyps(1) by blast
  moreover have "float_product_positive (f (bracket_low k)) (f (bracket_high k))"
    using Suc.prems by simp
  ultimately show ?case
    using lt(1) by (subst bracket_loop_unroll) simp
qed

lemma bracket_loop_first_fail:
  assumes "k \<le> m"
    and "\<not> float_product_positive (f (bracket_low m)) (f (bracket_high m))"
    and "m < 20"
    and "\<forall>j. k \<le> j \<and> j < m \<longrightarrow> float_product_positive (f (bracket_low j)) (f (bracket_high j))"
  shows "bracket_loop f (bracket_low k) (bracket_high k) (f (bracket_low k)) (f (bracket_high k)) =
     Inr (bracket_low m, bracket_high m)"
  using assms
proof (induction "m - k" arbitrary: k)
  case 0
  then have "k = m" by simp
  with 0 show ?case by (subst bracket_loop_unroll) simp
next
  case (Suc d)
  then have lt: "k < m" "Suc k < 20" "d = m - Suc k" "Suc k \<le> m" by simp_all
  have "\<forall>j. Suc k \<le> j \<and> j < m \<longrightarrow> float_product_positive (f (bracket_low j)) (f (bracket_high j))"
    using Suc.prems by simp
  then have "bracket_loop f (bracket_low (Suc k)) (bracket_high (Suc k))
      (f (bracket_low (Suc k))) (f (bracket_high (Suc k))) = Inr (bracket_low m, bracket_high m)"
    using Suc.hyps(1) [OF lt(3) lt(4) Suc.prems(2) Suc.prems(3)] by blast
  moreover have "float_product_positive (f (bracket_low k)) (f (bracket_high k))"
    using Suc.prems lt by simp
  ultimately show ?case
    using lt(2) by (subst bracket_loop_unroll) simp
qed

lemma bracket_loop_fuel_enough:
  assumes "k < 20"
  shows "bracket_loop_fuel (20 - k) f (bracket_low k) (bracket_high k) (f (bracket_low k))
       (f (bracket_high k)) =
     Some (bracket_loop f (bracket_low k) (bracket_high k) (f (bracket_low k))
       (f (bracket_high k)))"
  using assms
proof (induction "19 - k" arbitrary: k)
  case 0
  then have k: "k = 19" by simp
  then have fuel: "20 - k = Suc 0" by simp
  show ?case
    unfolding fuel bracket_loop_fuel_unroll bracket_loop_unroll [of f k]
    using k by simp
next
  case (Suc d)
  then have lt: "Suc k < 20" "d = 19 - Suc k" by simp_all
  have fuel: "20 - k = Suc (20 - Suc k)" using lt by simp
  have IH: "bracket_loop_fuel (20 - Suc k) f (bracket_low (Suc k)) (bracket_high (Suc k))
       (f (bracket_low (Suc k))) (f (bracket_high (Suc k))) =
     Some (bracket_loop f (bracket_low (Suc k)) (bracket_high (Suc k)) (f (bracket_low (Suc k)))
       (f (bracket_high (Suc k))))"
    using Suc.hyps(1) [OF lt(2) lt(1)] .
  show ?case
    unfolding fuel bracket_loop_fuel_unroll bracket_loop_unroll [of f k] IH
    using lt(1) by simp
qed

subsection \<open>Bracket discovery\<close>

text \<open>
  The search starts at the bracket number 0 and either raises, every one of the
  brackets 0 to 19 having passed the test of the loop (the product of the objective
  at its two ends is a positive double), or leaves with the first of them that has
  not.
\<close>

lemma bracket_low_0: "bracket_low 0 = 1 / 100"
  by (simp add: bracket_low_def)

lemma bracket_high_0: "bracket_high 0 = 100"
  by (simp add: bracket_high_def)

lemma find_bracket_from_0:
  "find_bracket n E0 i r V =
     bracket_loop (balance_to_zero n E0 i r V) (bracket_low 0) (bracket_high 0)
       (balance_to_zero n E0 i r V (bracket_low 0)) (balance_to_zero n E0 i r V (bracket_high 0))"
  by (simp add: find_bracket_def Let_def bracket_low_0 bracket_high_0)

lemma find_bracket_cases:
  fixes n E0 i r V
  defines "f \<equiv> balance_to_zero n E0 i r V"
  shows "(find_bracket n E0 i r V = Inl no_bracket \<and>
       (\<forall>j<20. float_product_positive (f (bracket_low j)) (f (bracket_high j)))) \<or>
     (\<exists>m<20. \<not> float_product_positive (f (bracket_low m)) (f (bracket_high m)) \<and>
        (\<forall>j<m. float_product_positive (f (bracket_low j)) (f (bracket_high j))) \<and>
        find_bracket n E0 i r V = Inr (bracket_low m, bracket_high m))"
proof (cases "\<forall>j<20. float_product_positive (f (bracket_low j)) (f (bracket_high j))")
  case True
  then have "find_bracket n E0 i r V = Inl no_bracket"
    unfolding find_bracket_from_0 f_def [symmetric]
    by (intro bracket_loop_all_pass) simp_all
  with True show ?thesis by blast
next
  case False
  then have ex:
    "\<exists>m. m < 20 \<and> \<not> float_product_positive (f (bracket_low m)) (f (bracket_high m))"
    by blast
  define m where
    "m = (LEAST m. m < 20 \<and>
       \<not> float_product_positive (f (bracket_low m)) (f (bracket_high m)))"
  have m: "m < 20 \<and> \<not> float_product_positive (f (bracket_low m)) (f (bracket_high m))"
    unfolding m_def using ex by (rule LeastI_ex)
  have least: "float_product_positive (f (bracket_low j)) (f (bracket_high j))" if "j < m" for j
  proof (rule ccontr)
    assume "\<not> float_product_positive (f (bracket_low j)) (f (bracket_high j))"
    with that m
    have "j < 20 \<and> \<not> float_product_positive (f (bracket_low j)) (f (bracket_high j))"
      by simp
    then have "m \<le> j" unfolding m_def by (rule Least_le)
    with that show False by simp
  qed
  have "find_bracket n E0 i r V = Inr (bracket_low m, bracket_high m)"
    unfolding find_bracket_from_0 f_def [symmetric]
    using m least by (intro bracket_loop_first_fail) simp_all
  with m least show ?thesis by blast
qed

subsection \<open>The test of the loop\<close>

text \<open>
  A product that passes the test is positive; one that is zero or negative fails it;
  and a product of at least \<open>2 ^ - 200\<close> is far above the underflow and passes. The
  two ends of a bracket always multiply to 1.
\<close>

lemma float_product_positive_pos: "float_product_positive x y \<Longrightarrow> 0 < x * y"
proof -
  assume "float_product_positive x y"
  then have "1 / 2 ^ 1075 < x * y" by (simp add: float_product_positive_def)
  moreover have "(0::real) < 1 / 2 ^ 1075" by simp
  ultimately show ?thesis by (rule less_trans [rotated])
qed

lemma not_float_product_positive: "x * y \<le> 0 \<Longrightarrow> \<not> float_product_positive x y"
  using float_product_positive_pos [of x y] by auto

lemma float_product_positive_ge:
  assumes "1 / 2 ^ 200 \<le> x * y"
  shows "float_product_positive x y"
proof -
  have "(1::real) / 2 ^ 1075 < 1 / 2 ^ 200" by simp
  with assms show ?thesis by (simp add: float_product_positive_def)
qed

lemma bracket_low_times_high: "bracket_low k * bracket_high k = 1"
  by (simp add: bracket_low_def bracket_high_def)

subsection \<open>What the search does\<close>

text \<open>
  The solver starts from the bracket \<open>(0.01, 100)\<close>; each run of the loop's body
  halves the low end and doubles the high end, and the body runs while the product
  of the objective at the two ends is a positive double. Exactly one of two things
  happens. Either the solver raises the bracket error: then every bracket it tested,
  numbers 0 to 19, passed the test of the loop and lay within the bounds, and the
  error comes with the 20th halving and doubling, which takes the low end below
  \<^verbatim>\<open>1e-8\<close> and the high end above \<^verbatim>\<open>1e8\<close>. Or some bracket \<open>m < 20\<close> is the
  first to fail the test: then the root finder is called on exactly that bracket, and
  the solver returns what it returns.
\<close>

theorem bracket_discovery:
  "bracket_low 0 = 1 / 100 \<and> bracket_high 0 = 100 \<and>
   (\<forall>k. bracket_low (Suc k) = bracket_low k / 2 \<and> bracket_high (Suc k) = bracket_high k * 2) \<and>
   ((find_required_assets_with_skip_growth root_scalar n E0 i r V = Inl no_bracket \<and>
     find_bracket n E0 i r V = Inl no_bracket \<and>
     (\<forall>j<20. float_product_positive (balance_to_zero n E0 i r V (bracket_low j))
        (balance_to_zero n E0 i r V (bracket_high j))) \<and>
     (\<forall>j<20. \<not> (\<bar>bracket_low j\<bar> < 1 / 10 ^ 8 \<or> \<bar>bracket_high j\<bar> > 10 ^ 8)) \<and>
     \<bar>bracket_low 20\<bar> < 1 / 10 ^ 8 \<and> \<bar>bracket_high 20\<bar> > 10 ^ 8) \<or>
    (\<exists>m<20.
       \<not> float_product_positive (balance_to_zero n E0 i r V (bracket_low m))
          (balance_to_zero n E0 i r V (bracket_high m)) \<and>
       (\<forall>j<m. float_product_positive (balance_to_zero n E0 i r V (bracket_low j))
          (balance_to_zero n E0 i r V (bracket_high j))) \<and>
       find_bracket n E0 i r V = Inr (bracket_low m, bracket_high m) \<and>
       find_required_assets_with_skip_growth root_scalar n E0 i r V =
         root_scalar (balance_to_zero n E0 i r V) (bracket_low m) (bracket_high m)))"
proof (intro conjI allI)
  show "bracket_low 0 = 1 / 100" by (rule bracket_low_0)
  show "bracket_high 0 = 100" by (rule bracket_high_0)
  show "bracket_low (Suc k) = bracket_low k / 2" for k by (simp add: bracket_low_Suc)
  show "bracket_high (Suc k) = bracket_high k * 2" for k by (simp add: bracket_high_Suc)
  have bounds: "\<forall>j<20. \<not> (\<bar>bracket_low j\<bar> < 1 / 10 ^ 8 \<or> \<bar>bracket_high j\<bar> > 10 ^ 8)"
    using bracket_in_bounds by blast
  have out: "\<bar>bracket_low 20\<bar> < 1 / 10 ^ 8 \<and> \<bar>bracket_high 20\<bar> > 10 ^ 8"
    by (rule bracket_out_of_bounds) simp
  from find_bracket_cases [of n E0 i r V]
  show "(find_required_assets_with_skip_growth root_scalar n E0 i r V = Inl no_bracket \<and>
     find_bracket n E0 i r V = Inl no_bracket \<and>
     (\<forall>j<20. float_product_positive (balance_to_zero n E0 i r V (bracket_low j))
        (balance_to_zero n E0 i r V (bracket_high j))) \<and>
     (\<forall>j<20. \<not> (\<bar>bracket_low j\<bar> < 1 / 10 ^ 8 \<or> \<bar>bracket_high j\<bar> > 10 ^ 8)) \<and>
     \<bar>bracket_low 20\<bar> < 1 / 10 ^ 8 \<and> \<bar>bracket_high 20\<bar> > 10 ^ 8) \<or>
    (\<exists>m<20.
       \<not> float_product_positive (balance_to_zero n E0 i r V (bracket_low m))
          (balance_to_zero n E0 i r V (bracket_high m)) \<and>
       (\<forall>j<m. float_product_positive (balance_to_zero n E0 i r V (bracket_low j))
          (balance_to_zero n E0 i r V (bracket_high j))) \<and>
       find_bracket n E0 i r V = Inr (bracket_low m, bracket_high m) \<and>
       find_required_assets_with_skip_growth root_scalar n E0 i r V =
         root_scalar (balance_to_zero n E0 i r V) (bracket_low m) (bracket_high m))"
  proof (elim disjE conjE exE)
    assume "find_bracket n E0 i r V = Inl no_bracket"
      and "\<forall>j<20. float_product_positive (balance_to_zero n E0 i r V (bracket_low j))
        (balance_to_zero n E0 i r V (bracket_high j))"
    then show ?thesis
      using bounds out by (simp add: find_required_assets_with_skip_growth_def)
  next
    fix m assume "m < 20"
      and "\<not> float_product_positive (balance_to_zero n E0 i r V (bracket_low m))
          (balance_to_zero n E0 i r V (bracket_high m))"
      and "\<forall>j<m. float_product_positive (balance_to_zero n E0 i r V (bracket_low j))
          (balance_to_zero n E0 i r V (bracket_high j))"
      and "find_bracket n E0 i r V = Inr (bracket_low m, bracket_high m)"
    then have "\<exists>m<20.
       \<not> float_product_positive (balance_to_zero n E0 i r V (bracket_low m))
          (balance_to_zero n E0 i r V (bracket_high m)) \<and>
       (\<forall>j<m. float_product_positive (balance_to_zero n E0 i r V (bracket_low j))
          (balance_to_zero n E0 i r V (bracket_high j))) \<and>
       find_bracket n E0 i r V = Inr (bracket_low m, bracket_high m) \<and>
       find_required_assets_with_skip_growth root_scalar n E0 i r V =
         root_scalar (balance_to_zero n E0 i r V) (bracket_low m) (bracket_high m)"
      by (intro exI [of _ m]) (simp add: find_required_assets_with_skip_growth_def)
    then show ?thesis by (rule disjI2)
  qed
qed

theorem bracket_discovery_witness:
  "(\<forall>root_scalar.
      find_required_assets_with_skip_growth root_scalar 2 60000 (7 / 100) (15 / 100) 623197 =
        root_scalar (balance_to_zero 2 60000 (7 / 100) (15 / 100) 623197) (1 / 100) 100) \<and>
   (\<forall>root_scalar.
      find_required_assets_with_skip_growth root_scalar 0 60000 (7 / 100) (15 / 100) 623197 =
        Inl no_bracket)"
proof (intro conjI allI)
  fix root_scalar :: "(real \<Rightarrow> real) \<Rightarrow> real \<Rightarrow> real \<Rightarrow> error + real"
  let ?f = "balance_to_zero 2 60000 (7 / 100) (15 / 100) 623197"
  have "?f (bracket_low 0) * ?f (bracket_high 0) \<le> 0"
    by (simp add: balance_to_zero_def calculate_balance_with_skip_growth_def
        skip_growth_year_def bracket_low_def bracket_high_def upto.simps)
  then have first: "\<not> float_product_positive (?f (bracket_low 0)) (?f (bracket_high 0))"
    by (rule not_float_product_positive)
  from bracket_discovery [of root_scalar 2 60000 "7 / 100" "15 / 100" 623197]
  consider
    (abort) "\<forall>j<20. float_product_positive (?f (bracket_low j)) (?f (bracket_high j))" |
    (found) m where
      "\<forall>j<m. float_product_positive (?f (bracket_low j)) (?f (bracket_high j))"
      "find_required_assets_with_skip_growth root_scalar 2 60000 (7 / 100) (15 / 100) 623197 =
         root_scalar ?f (bracket_low m) (bracket_high m)"
    by blast
  then show "find_required_assets_with_skip_growth root_scalar 2 60000 (7 / 100) (15 / 100)
      623197 = root_scalar ?f (1 / 100) 100"
  proof cases
    case abort
    then have "float_product_positive (?f (bracket_low 0)) (?f (bracket_high 0))" by simp
    with first show ?thesis by simp
  next
    case found
    have "m = 0"
    proof (rule ccontr)
      assume "m \<noteq> 0"
      then have "float_product_positive (?f (bracket_low 0)) (?f (bracket_high 0))"
        using found(1) by simp
      with first show False by simp
    qed
    with found(2) show ?thesis by (simp add: bracket_low_def bracket_high_def)
  qed
next
  fix root_scalar :: "(real \<Rightarrow> real) \<Rightarrow> real \<Rightarrow> real \<Rightarrow> error + real"
  let ?g = "balance_to_zero 0 60000 (7 / 100) (15 / 100) 623197"
  have same: "float_product_positive (?g (bracket_low m)) (?g (bracket_high m))" for m
  proof -
    have "?g (bracket_low m) * ?g (bracket_high m) =
        (bracket_low m * bracket_high m) * (623197 * 623197)"
      by (simp add: balance_to_zero_def calculate_balance_with_skip_growth_def)
    then have "?g (bracket_low m) * ?g (bracket_high m) = 623197 * 623197"
      by (simp only: bracket_low_times_high mult_1)
    then show ?thesis by (intro float_product_positive_ge) simp
  qed
  from bracket_discovery [of root_scalar 0 60000 "7 / 100" "15 / 100" 623197]
  show "find_required_assets_with_skip_growth root_scalar 0 60000 (7 / 100) (15 / 100) 623197 =
      Inl no_bracket"
    using same by blast
qed

text \<open>
  Claim C5 says that the root finder is called only on a bracket with a verified
  change of sign, never on a pair of one sign. The code means to see to that with the
  test of the loop, and misses the underflow of the product. With one year, a monthly
  spend of \<open>2 ^ - 565\<close>, so a base expense of \<open>12 * 2 ^ - 565\<close>, a unit value of
  \<open>2 ^ - 581\<close> and no inflation or appreciation, the objective is negative at both
  ends of the first bracket \<open>(0.01, 100)\<close>; the product of the two values is positive
  and below \<open>2 ^ - 1075\<close>, a double \<^verbatim>\<open>0.0\<close>; the loop ends at once and the root
  finder is called on that pair of one sign. Yet the quantity \<open>786432\<close> balances the
  books, and the bracket number 13 of the search, well within the bounds, has the
  objective negative at its low end and positive at its high end.
\<close>

theorem bracket_loop_leaves_on_underflow:
  "balance_to_zero 1 (1 / 2 ^ 565 * 12) (0 / 100) (0 / 100) (1 / 2 ^ 581) (1 / 100) < 0 \<and>
   balance_to_zero 1 (1 / 2 ^ 565 * 12) (0 / 100) (0 / 100) (1 / 2 ^ 581) 100 < 0 \<and>
   find_bracket 1 (1 / 2 ^ 565 * 12) (0 / 100) (0 / 100) (1 / 2 ^ 581) = Inr (1 / 100, 100) \<and>
   (\<forall>root_scalar.
      find_required_assets_with_skip_growth root_scalar 1 (1 / 2 ^ 565 * 12) (0 / 100) (0 / 100)
          (1 / 2 ^ 581) =
        root_scalar (balance_to_zero 1 (1 / 2 ^ 565 * 12) (0 / 100) (0 / 100) (1 / 2 ^ 581))
          (1 / 100) 100) \<and>
   balance_to_zero 1 (1 / 2 ^ 565 * 12) (0 / 100) (0 / 100) (1 / 2 ^ 581) (bracket_low 13) < 0 \<and>
   0 < balance_to_zero 1 (1 / 2 ^ 565 * 12) (0 / 100) (0 / 100) (1 / 2 ^ 581) (bracket_high 13) \<and>
   balance_to_zero 1 (1 / 2 ^ 565 * 12) (0 / 100) (0 / 100) (1 / 2 ^ 581) 786432 = 0"
proof -
  let ?f = "balance_to_zero 1 (1 / 2 ^ 565 * 12) (0 / 100) (0 / 100) (1 / 2 ^ 581)"
  have f: "?f x = x * (1 / 2 ^ 581) - 1 / 2 ^ 565 * 12" for x
    by (simp add: balance_to_zero_def calculate_balance_step [of 1] calculate_balance_empty
        skip_growth_year_def)
  have lo: "?f (1 / 100) < 0" unfolding f by simp
  have hi: "?f 100 < 0" unfolding f by simp
  have under: "\<not> float_product_positive (?f (1 / 100)) (?f 100)"
    unfolding f by (simp add: float_product_positive_def)
  have br: "find_bracket 1 (1 / 2 ^ 565 * 12) (0 / 100) (0 / 100) (1 / 2 ^ 581) =
      Inr (1 / 100, 100)"
    unfolding find_bracket_def Let_def
    by (subst bracket_loop.simps) (simp only: under if_False)
  have solver: "find_required_assets_with_skip_growth root_scalar 1 (1 / 2 ^ 565 * 12)
      (0 / 100) (0 / 100) (1 / 2 ^ 581) = root_scalar ?f (1 / 100) 100" for root_scalar
    by (simp only: find_required_assets_with_skip_growth_def br sum.case prod.case)
  have l13: "?f (bracket_low 13) < 0"
    unfolding f by (simp add: bracket_low_def)
  have h13: "0 < ?f (bracket_high 13)"
    unfolding f by (simp add: bracket_high_def)
  have root: "?f 786432 = 0" unfolding f by simp
  show ?thesis
    by (intro conjI allI lo hi br solver l13 h13 root)
qed

subsection \<open>The bracket loop runs at most 20 times\<close>

lemma bracket_loop_fuel_short:
  assumes "k < 20"
    and "\<forall>j. k \<le> j \<and> j < 20 \<longrightarrow> float_product_positive (f (bracket_low j)) (f (bracket_high j))"
  shows "bracket_loop_fuel (19 - k) f (bracket_low k) (bracket_high k) (f (bracket_low k))
       (f (bracket_high k)) = None"
  using assms
proof (induction "19 - k" arbitrary: k)
  case 0
  then have "float_product_positive (f (bracket_low k)) (f (bracket_high k))" by simp
  moreover have "19 - k = 0" using 0 by simp
  ultimately show ?case by (subst bracket_loop_fuel.simps) simp
next
  case (Suc d)
  then have lt: "Suc k < 20" "d = 19 - Suc k" by simp_all
  have fuel: "19 - k = Suc (19 - Suc k)" using lt by simp
  have "\<forall>j. Suc k \<le> j \<and> j < 20 \<longrightarrow> float_product_positive (f (bracket_low j)) (f (bracket_high j))"
    using Suc.prems by simp
  then have IH: "bracket_loop_fuel (19 - Suc k) f (bracket_low (Suc k)) (bracket_high (Suc k))
       (f (bracket_low (Suc k))) (f (bracket_high (Suc k))) = None"
    using Suc.hyps(1) [OF lt(2) lt(1)] by blast
  have "float_product_positive (f (bracket_low k)) (f (bracket_high k))" using Suc.prems by simp
  then show ?case
    unfolding fuel bracket_loop_fuel_unroll IH using lt(1) by simp
qed

text \<open>
  Claim C9. For all parameters the bracket loop of the solver ends within 20 runs of
  its body: a budget of 20 runs gives the loop's result, which is the result of the
  total function \<open>find_bracket\<close>. The reason is the arithmetic of the bounds:
  \<open>0.01 / 2 ^ 20\<close> is below \<^verbatim>\<open>1e-8\<close> and \<open>100 * 2 ^ 20\<close> is above \<^verbatim>\<open>1e8\<close>, so
  the 20th run raises if no earlier bracket ended the loop. The bound is reached:
  when each of the brackets 0 to 19 passes the test of the loop, a budget of 19 runs
  is not enough and the loop raises. Each run evaluates the objective twice, and the
  objective is a loop over the years of the horizon, so the search evaluates it at
  most 42 times; the root finder that follows is SciPy's.
\<close>

theorem bracket_loop_at_most_20_runs:
  "bracket_loop_fuel 20 (balance_to_zero n E0 i r V) (1 / 100) 100
      (balance_to_zero n E0 i r V (1 / 100)) (balance_to_zero n E0 i r V 100) =
     Some (find_bracket n E0 i r V) \<and>
   (1 / 100 / 2 ^ 20 :: real) < 1 / 10 ^ 8 \<and> (100 * 2 ^ 20 :: real) > 10 ^ 8 \<and>
   ((\<forall>j<20. float_product_positive (balance_to_zero n E0 i r V (bracket_low j))
        (balance_to_zero n E0 i r V (bracket_high j))) \<longrightarrow>
    bracket_loop_fuel 19 (balance_to_zero n E0 i r V) (1 / 100) 100
      (balance_to_zero n E0 i r V (1 / 100)) (balance_to_zero n E0 i r V 100) = None \<and>
    find_bracket n E0 i r V = Inl no_bracket)"
proof (intro conjI impI)
  show "bracket_loop_fuel 20 (balance_to_zero n E0 i r V) (1 / 100) 100
      (balance_to_zero n E0 i r V (1 / 100)) (balance_to_zero n E0 i r V 100) =
     Some (find_bracket n E0 i r V)"
    using bracket_loop_fuel_enough [of 0 "balance_to_zero n E0 i r V"]
    by (simp add: find_bracket_from_0 bracket_low_0 bracket_high_0)
  show "(1 / 100 / 2 ^ 20 :: real) < 1 / 10 ^ 8" by simp
  show "(100 * 2 ^ 20 :: real) > 10 ^ 8" by simp
next
  assume same: "\<forall>j<20. float_product_positive (balance_to_zero n E0 i r V (bracket_low j))
        (balance_to_zero n E0 i r V (bracket_high j))"
  show "bracket_loop_fuel 19 (balance_to_zero n E0 i r V) (1 / 100) 100
      (balance_to_zero n E0 i r V (1 / 100)) (balance_to_zero n E0 i r V 100) = None"
    using bracket_loop_fuel_short [of 0 "balance_to_zero n E0 i r V"] same
    by (simp add: bracket_low_0 bracket_high_0)
  show "find_bracket n E0 i r V = Inl no_bracket"
    unfolding find_bracket_from_0
    using same by (intro bracket_loop_all_pass) simp_all
qed

theorem bracket_loop_at_most_20_runs_witness:
  "bracket_loop_fuel 20 (balance_to_zero 0 60000 (7 / 100) (15 / 100) 623197) (1 / 100) 100
      (balance_to_zero 0 60000 (7 / 100) (15 / 100) 623197 (1 / 100))
      (balance_to_zero 0 60000 (7 / 100) (15 / 100) 623197 100) = Some (Inl no_bracket) \<and>
   bracket_loop_fuel 19 (balance_to_zero 0 60000 (7 / 100) (15 / 100) 623197) (1 / 100) 100
      (balance_to_zero 0 60000 (7 / 100) (15 / 100) 623197 (1 / 100))
      (balance_to_zero 0 60000 (7 / 100) (15 / 100) 623197 100) = None"
proof -
  let ?g = "balance_to_zero 0 60000 (7 / 100) (15 / 100) 623197"
  have "float_product_positive (?g (bracket_low j)) (?g (bracket_high j))" for j
  proof -
    have "?g (bracket_low j) * ?g (bracket_high j) =
        (bracket_low j * bracket_high j) * (623197 * 623197)"
      by (simp add: balance_to_zero_def calculate_balance_with_skip_growth_def)
    then have "?g (bracket_low j) * ?g (bracket_high j) = 623197 * 623197"
      by (simp only: bracket_low_times_high mult_1)
    then show ?thesis by (intro float_product_positive_ge) simp
  qed
  then have same: "\<forall>j<20. float_product_positive (?g (bracket_low j)) (?g (bracket_high j))"
    by simp
  show ?thesis
    using same bracket_loop_at_most_20_runs [of 0 60000 "7 / 100" "15 / 100" 623197]
    by simp
qed

subsection \<open>Parameters that are not positive\<close>

text \<open>
  The code never tests its parameters: a horizon, a base expense or a unit value that
  is not positive goes through the same search as any other. Where the rates are not
  negative the objective on a positive quantity is bounded by the closed form: from
  below by the initial balance when the base expense is not positive and the unit
  value is positive, from above by the base expense taken off when the base expense
  is positive and the unit value is not.
\<close>

lemma bracket_low_pos: "0 < bracket_low k"
  by (simp add: bracket_low_def)

lemma bracket_high_pos: "0 < bracket_high k"
  by (simp add: bracket_high_def)

lemma objective_ge_on_pos:
  fixes A E0 i r V :: real
  assumes "1 \<le> n" "0 \<le> i" "0 \<le> r" "E0 \<le> 0" "0 < V" "0 < A"
  shows "A * V \<le> balance_to_zero n E0 i r V A"
proof -
  have "(\<Sum>y\<in>{1..n}. E0 * (1 + i) ^ nat (y - 1) * (1 + r) ^ nat (n - y)) \<le> 0"
  proof (rule sum_nonpos)
    fix y assume "y \<in> {1..n}"
    have nn: "0 \<le> (1 + i) ^ nat (y - 1) * (1 + r) ^ nat (n - y)"
      using assms by simp
    have "E0 * ((1 + i) ^ nat (y - 1) * (1 + r) ^ nat (n - y)) \<le> 0"
      using assms(4) nn by (rule mult_nonpos_nonneg)
    then show "E0 * (1 + i) ^ nat (y - 1) * (1 + r) ^ nat (n - y) \<le> 0"
      by (simp add: mult.assoc)
  qed
  moreover have "A * V * 1 \<le> A * V * (1 + r) ^ nat (n - 1)"
  proof (rule mult_left_mono)
    show "1 \<le> (1 + r) ^ nat (n - 1)" using assms(3) by (intro one_le_power) simp
    show "0 \<le> A * V" using assms by simp
  qed
  ultimately show ?thesis
    by (simp add: balance_to_zero_def closed_form [OF assms(1)])
qed

lemma objective_le_on_pos:
  fixes A E0 i r V :: real
  assumes "1 \<le> n" "0 \<le> i" "0 \<le> r" "0 < E0" "V \<le> 0" "0 < A"
  shows "balance_to_zero n E0 i r V A \<le> - E0"
proof -
  let ?t = "\<lambda>y. E0 * (1 + i) ^ nat (y - 1) * (1 + r) ^ nat (n - y)"
  have "?t n \<le> sum ?t {1..n}"
  proof (rule member_le_sum)
    show "n \<in> {1..n}" using assms(1) by simp
    show "finite {1..n}" by simp
    fix y assume "y \<in> {1..n} - {n}"
    show "0 \<le> ?t y" using assms by simp
  qed
  moreover have "E0 * 1 \<le> E0 * (1 + i) ^ nat (n - 1)"
  proof (rule mult_left_mono)
    show "1 \<le> (1 + i) ^ nat (n - 1)" using assms(2) by (intro one_le_power) simp
    show "0 \<le> E0" using assms by simp
  qed
  ultimately have S: "E0 \<le> sum ?t {1..n}" by simp
  have "A * V * (1 + r) ^ nat (n - 1) \<le> 0"
  proof -
    have "A * V \<le> 0" using assms by (simp add: mult_nonneg_nonpos)
    moreover have "0 \<le> (1 + r) ^ nat (n - 1)" using assms by simp
    ultimately show ?thesis by (rule mult_nonpos_nonneg)
  qed
  with S show ?thesis
    by (simp add: balance_to_zero_def closed_form [OF assms(1)])
qed

lemma square_ge:
  fixes x :: real
  assumes "1 / 2 ^ 100 \<le> x"
  shows "1 / 2 ^ 200 \<le> x * x"
proof -
  have "(1 / 2 ^ 100) * (1 / 2 ^ 100) \<le> x * x"
    using assms by (intro mult_mono) simp_all
  then show ?thesis by simp
qed

text \<open>
  Claim C8 says that parameters with a horizon, a base expense or a unit value that is
  not positive are rejected, before any simulation, with a failure of their own. The
  code has no such failure and no such test. With a base expense of \<open>-1\<close> and a unit
  value of \<open>-1\<close> over one year the objective is \<open>1 - A\<close>: the first bracket
  \<open>(0.01, 100)\<close> has a change of sign, the search leaves with it for the root finder,
  and the quantity 1 balances the books.
\<close>

theorem nonpositive_parameters_accepted:
  "(- 1 :: real) \<le> 0 \<and> find_bracket 1 (- 1) 0 0 (- 1) = Inr (1 / 100, 100) \<and>
   balance_to_zero 1 (- 1) 0 0 (- 1) 1 = 0"
proof -
  have f: "balance_to_zero 1 (- 1) 0 0 (- 1) x = 1 - x" for x
    by (simp add: balance_to_zero_def calculate_balance_step [of 1] calculate_balance_empty
        skip_growth_year_def)
  have "\<not> float_product_positive (balance_to_zero 1 (- 1) 0 0 (- 1) (1 / 100))
      (balance_to_zero 1 (- 1) 0 0 (- 1) 100)"
    by (rule not_float_product_positive) (simp add: f)
  then have "find_bracket 1 (- 1) 0 0 (- 1) = Inr (1 / 100, 100)"
    unfolding find_bracket_def Let_def
    by (subst bracket_loop.simps) (simp only: if_False)
  then show ?thesis by (simp add: f)
qed

text \<open>
  Claim C8, amended. Parameters are simulated as they come, and the only failure the
  solver raises itself is the bracket error, after the search. That is how these
  parameters end, where the numbers are of a size that keeps the doubles far from
  overflow and underflow (magnitudes between \<open>2 ^ - 100\<close> and \<open>2 ^ 100\<close>, rates between
  0 and 1, at most 100 years): a horizon of no years with a unit value other than 0;
  and, for a horizon of at least one year, a base expense that is not positive with a
  positive unit value, or a positive base expense with a unit value that is not
  positive. (When both the base expense and the unit value are not positive the
  solver may return a quantity, as above.)
\<close>

theorem no_parameter_validation:
  fixes E0 i r V :: real
  assumes "n \<le> 0 \<and> 1 / 2 ^ 100 \<le> \<bar>V\<bar> \<and> \<bar>V\<bar> \<le> 2 ^ 100 \<or>
     1 \<le> n \<and> n \<le> 100 \<and> 0 \<le> i \<and> i \<le> 1 \<and> 0 \<le> r \<and> r \<le> 1 \<and>
       (E0 \<le> 0 \<and> - (2 ^ 100) \<le> E0 \<and> 1 / 2 ^ 100 \<le> V \<and> V \<le> 2 ^ 100 \<or>
        1 / 2 ^ 100 \<le> E0 \<and> E0 \<le> 2 ^ 100 \<and> V \<le> 0 \<and> - (2 ^ 100) \<le> V)"
  shows "find_bracket n E0 i r V = Inl no_bracket \<and>
     find_required_assets_with_skip_growth root_scalar n E0 i r V = Inl no_bracket"
proof -
  let ?f = "balance_to_zero n E0 i r V"
  have same: "float_product_positive (?f (bracket_low j)) (?f (bracket_high j))" for j
  proof -
    consider (horizon) "n \<le> 0" "1 / 2 ^ 100 \<le> \<bar>V\<bar>"
      | (expense) "1 \<le> n" "0 \<le> i" "0 \<le> r" "E0 \<le> 0" "1 / 2 ^ 100 \<le> V"
      | (unit) "1 \<le> n" "0 \<le> i" "0 \<le> r" "1 / 2 ^ 100 \<le> E0" "V \<le> 0"
      using assms by blast
    then have "1 / 2 ^ 200 \<le> ?f (bracket_low j) * ?f (bracket_high j)"
    proof cases
      case horizon
      have f: "?f x = x * V" for x
        using horizon(1) by (simp add: balance_to_zero_def calculate_balance_empty)
      have "?f (bracket_low j) * ?f (bracket_high j) =
          (bracket_low j * bracket_high j) * (V * V)"
        by (simp only: f mult_ac)
      also have "\<dots> = \<bar>V\<bar> * \<bar>V\<bar>"
        by (simp add: bracket_low_times_high)
      finally show ?thesis
        using square_ge [OF horizon(2)] by simp
    next
      case expense
      then have V: "0 < V"
        by (intro less_le_trans [of 0 "1 / 2 ^ 100" V]) simp_all
      have lo: "bracket_low j * V \<le> ?f (bracket_low j)"
        using expense V by (intro objective_ge_on_pos bracket_low_pos)
      have hi: "bracket_high j * V \<le> ?f (bracket_high j)"
        using expense V by (intro objective_ge_on_pos bracket_high_pos)
      have "(bracket_low j * V) * (bracket_high j * V) \<le>
          ?f (bracket_low j) * ?f (bracket_high j)"
      proof (rule mult_mono [OF lo hi])
        have "0 < bracket_low j * V" using V bracket_low_pos [of j] by simp
        with lo show "0 \<le> ?f (bracket_low j)" by simp
        show "0 \<le> bracket_high j * V" using V bracket_high_pos [of j] by simp
      qed
      moreover have "(bracket_low j * V) * (bracket_high j * V) =
          (bracket_low j * bracket_high j) * (V * V)"
        by (simp only: mult_ac)
      ultimately have "V * V \<le> ?f (bracket_low j) * ?f (bracket_high j)"
        by (simp add: bracket_low_times_high)
      with square_ge [OF expense(5)] show ?thesis by (rule order_trans)
    next
      case unit
      then have E: "0 < E0"
        by (intro less_le_trans [of 0 "1 / 2 ^ 100" E0]) simp_all
      have lo: "?f (bracket_low j) \<le> - E0"
        using unit E by (intro objective_le_on_pos bracket_low_pos)
      have hi: "?f (bracket_high j) \<le> - E0"
        using unit E by (intro objective_le_on_pos bracket_high_pos)
      have "E0 * E0 \<le> (- ?f (bracket_low j)) * (- ?f (bracket_high j))"
        using lo hi E by (intro mult_mono) simp_all
      then have "E0 * E0 \<le> ?f (bracket_low j) * ?f (bracket_high j)" by simp
      with square_ge [OF unit(4)] show ?thesis by (rule order_trans)
    qed
    then show ?thesis by (rule float_product_positive_ge)
  qed
  have "find_bracket n E0 i r V = Inl no_bracket"
    unfolding find_bracket_from_0
    using same by (intro bracket_loop_all_pass) simp_all
  then show ?thesis
    by (simp add: find_required_assets_with_skip_growth_def)
qed

theorem no_parameter_validation_witness:
  "(\<forall>root_scalar.
      find_required_assets_with_skip_growth root_scalar 0 60000 (7 / 100) (15 / 100) 623197 =
        Inl no_bracket) \<and>
   (\<forall>root_scalar.
      find_required_assets_with_skip_growth root_scalar 3 (- 60000) (7 / 100) (15 / 100)
        623197 = Inl no_bracket) \<and>
   (\<forall>root_scalar.
      find_required_assets_with_skip_growth root_scalar 3 60000 (7 / 100) (15 / 100)
        (- 623197) = Inl no_bracket)"
proof (intro conjI allI)
  fix root_scalar :: "(real \<Rightarrow> real) \<Rightarrow> real \<Rightarrow> real \<Rightarrow> error + real"
  show "find_required_assets_with_skip_growth root_scalar 0 60000 (7 / 100) (15 / 100) 623197 =
      Inl no_bracket"
    using no_parameter_validation [of 0 623197 "7 / 100" "15 / 100" 60000 root_scalar]
    by simp
  show "find_required_assets_with_skip_growth root_scalar 3 (- 60000) (7 / 100) (15 / 100)
      623197 = Inl no_bracket"
    using no_parameter_validation [of 3 623197 "7 / 100" "15 / 100" "- 60000" root_scalar]
    by simp
  show "find_required_assets_with_skip_growth root_scalar 3 60000 (7 / 100) (15 / 100)
      (- 623197) = Inl no_bracket"
    using no_parameter_validation [of 3 "- 623197" "7 / 100" "15 / 100" 60000 root_scalar]
    by simp
qed

subsection \<open>The row of totals\<close>





subsection \<open>The solved quantity balances the books\<close>








end
